theory Spec2Isabelle
  imports Main "HOL-Library.Word"
begin

section \<open>The emulated RTT of the ESP8266: data model\<close>

text \<open>
  The development follows three source files: the RTT core (\<^verbatim>\<open>rtt_init\<close> ..
  \<^verbatim>\<open>_rtt_isr\<close>), the system-clock driver (\<^verbatim>\<open>_sys_*\<close>) and the FRC2 driver
  (\<^verbatim>\<open>_frc_*\<close>).  C identifiers keep their names; a leading underscore is dropped
  because an Isabelle name cannot start with one.  All file-scope variables of the three
  files, the FRC2 register block and the readings of the platform (system time, RTC
  counter, calibration value) are fields of one state record that every function takes
  and returns.
\<close>

type_synonym u32 = "32 word"
type_synonym u64 = "64 word"

text \<open>A \<^verbatim>\<open>void *\<close> argument; \<^verbatim>\<open>NULL\<close> is 0.\<close>

type_synonym arg_t = "32 word"

text \<open>
  Function pointers of type \<^verbatim>\<open>rtt_cb_t\<close>.  A null pointer is \<open>None\<close>.  The core's
  slots hold callbacks of the application, identified by a number.  \<^verbatim>\<open>_rtt_isr\<close> is
  \<^verbatim>\<open>static\<close> in the core's file, so the only place that ever holds it is a driver's
  callback slot, where the core itself stores it.
\<close>

type_synonym app_cb = nat

datatype rtt_cb_t = Rtt_isr | App app_cb

text \<open>Which of the two drivers \<^verbatim>\<open>_rtt_hw\<close> points to.\<close>

datatype rtt_hw_driver_t = Rtt_hw_sys_driver | Rtt_hw_frc_driver

record rtt_counter_t =
  alarm :: u32
  alarm_cb :: "app_cb option"
  overflow_cb :: "app_cb option"
  alarm_arg :: arg_t
  overflow_arg :: arg_t
  alarm_active :: u32
  alarm_set :: bool
  wakeup :: bool

text \<open>
  \<^verbatim>\<open>xtimer_t\<close>: the two fields the driver writes, and \<open>queued\<close>, the interval given to
  the last \<^verbatim>\<open>xtimer_set\<close> while the timer is pending (\<open>None\<close> after
  \<^verbatim>\<open>xtimer_remove\<close>).
\<close>

record xtimer_t =
  callback :: "rtt_cb_t option"
  arg :: arg_t
  queued :: "u32 option"

text \<open>The FRC2 register block, with the bit fields of \<^verbatim>\<open>ctrl\<close> that the driver writes.\<close>

record frc2_struct_t =
  load :: u32
  count :: u32
  ctrl_intr_hold :: bool
  ctrl_clk_div :: nat
  ctrl_reload :: bool
  ctrl_enable :: bool
  frc2_alarm :: u32

text \<open>\<^verbatim>\<open>_frc_alarm_t\<close>; the fields carry the prefix \<open>frc_\<close> to keep them apart from the core's.\<close>

record frc_alarm_t =
  frc_alarm_set :: u32
  frc_alarm_cb :: "rtt_cb_t option"
  frc_alarm_arg :: arg_t
  frc_active :: u32

record rtt_state =
  rtt_counter :: rtt_counter_t
  rtt_offset :: u32
  rtt_hw :: rtt_hw_driver_t
  sys_rtc_counter_saved :: u32
  sys_counter_saved :: u32
  sys_counter_offset :: u32
  sys_timer :: xtimer_t
  frc2 :: frc2_struct_t
  frc_alarm :: frc_alarm_t
  frc_rtc_counter_saved :: u32
  frc_counter_saved :: u32
  frc_int_enabled :: bool
  system_time :: u32
  RTC_COUNTER :: u32
  rtc_clock_cali :: u32
  sleep_timer_wakeup :: "u64 option"

text \<open>
  \<open>system_time\<close> is what \<^verbatim>\<open>system_get_time()\<close> returns, \<open>RTC_COUNTER\<close> is the register
  \<^verbatim>\<open>RTC.COUNTER\<close>, \<open>rtc_clock_cali\<close> is what \<^verbatim>\<open>pm_rtc_clock_cali_proc()\<close> returns,
  \<open>sleep_timer_wakeup\<close> is the duration last given to
  \<^verbatim>\<open>esp_sleep_enable_timer_wakeup\<close>, and \<open>frc_int_enabled\<close> stands for the FRC2
  interrupt being attached, unmasked and enabled in \<^verbatim>\<open>DPORT.INT_ENABLE\<close>.

  The parts the three files link against but do not define are the fields of a platform
  record: the macro \<^verbatim>\<open>RTT_TICKS_TO_US\<close> (its argument is a 32-bit difference, its
  result is stored in a \<^verbatim>\<open>uint64_t\<close>), the SDK function \<^verbatim>\<open>rtc_clk_to_us\<close>, and what
  each callback of the application does to the state when it is called.
\<close>

record platform =
  RTT_TICKS_TO_US :: "u32 \<Rightarrow> u64"
  rtc_clk_to_us :: "u32 \<Rightarrow> u32 \<Rightarrow> u32"
  app_run :: "app_cb \<Rightarrow> arg_t \<Rightarrow> rtt_state \<Rightarrow> rtt_state"

text \<open>
  Modelled from the spec: the macros \<^verbatim>\<open>RTT_FREQUENCY\<close> and \<^verbatim>\<open>RTT_MAX_VALUE\<close> are
  not defined in the three files.  The counter is a 32-bit counter in 1 MHz units that
  wraps at \<open>2 ^ 32\<close> microseconds.
\<close>

definition RTT_FREQUENCY :: u64 where
  "RTT_FREQUENCY = 1000000"

definition RTT_MAX_VALUE :: u32 where
  "RTT_MAX_VALUE = 0xFFFFFFFF"

section \<open>The system-clock driver\<close>

definition SYS_US_TO_COUNT :: "u64 \<Rightarrow> u32" where
  "SYS_US_TO_COUNT us = ucast (us * RTT_FREQUENCY div 1000000)"

definition SYS_COUNT_TO_US :: "u64 \<Rightarrow> u32" where
  "SYS_COUNT_TO_US cnt = ucast (cnt * 1000000 div RTT_FREQUENCY)"

definition sys_init :: "rtt_state \<Rightarrow> rtt_state" where
  "sys_init s = s"

definition sys_poweron :: "rtt_state \<Rightarrow> rtt_state" where
  "sys_poweron s = s"

definition sys_poweroff :: "rtt_state \<Rightarrow> rtt_state" where
  "sys_poweroff s = s\<lparr>sys_timer := (sys_timer s)\<lparr>queued := None\<rparr>\<rparr>"

definition sys_get_counter :: "rtt_state \<Rightarrow> u32" where
  "sys_get_counter s = SYS_US_TO_COUNT (ucast (system_time s + sys_counter_offset s))"

text \<open>
  The assertion at the head of \<^verbatim>\<open>_sys_set_alarm\<close>.  With \<^verbatim>\<open>RTT_MAX_VALUE\<close> the
  largest 32-bit value it holds for every argument (lemma \<open>sys_set_alarm_assert_holds\<close>
  below), so \<open>sys_set_alarm\<close> has no failing branch.
\<close>

definition sys_set_alarm_assert :: "u32 \<Rightarrow> bool" where
  "sys_set_alarm_assert alm = (alm \<le> RTT_MAX_VALUE)"

definition sys_set_alarm :: "u32 \<Rightarrow> rtt_cb_t option \<Rightarrow> arg_t \<Rightarrow> rtt_state \<Rightarrow> rtt_state" where
  "sys_set_alarm alm cb a s =
     (let sys_count = sys_get_counter s;
          rtt_diff = alm - sys_count
      in s\<lparr>sys_timer := \<lparr>callback = cb, arg = a,
                           queued = Some (SYS_COUNT_TO_US (ucast rtt_diff))\<rparr>\<rparr>)"

definition sys_clear_alarm :: "rtt_state \<Rightarrow> rtt_state" where
  "sys_clear_alarm s = s\<lparr>sys_timer := \<lparr>callback = None, arg = 0, queued = None\<rparr>\<rparr>"

definition sys_save_counter :: "rtt_state \<Rightarrow> rtt_state" where
  "sys_save_counter s =
     s\<lparr>sys_rtc_counter_saved := RTC_COUNTER s,
       sys_counter_saved := system_time s + sys_counter_offset s\<rparr>"

definition sys_restore_counter :: "platform \<Rightarrow> bool \<Rightarrow> rtt_state \<Rightarrow> rtt_state" where
  "sys_restore_counter P in_init s =
     (let rtc_diff = RTC_COUNTER s - sys_rtc_counter_saved s;
          s1 = s\<lparr>sys_counter_offset :=
                   sys_counter_offset s + rtc_clk_to_us P rtc_diff (rtc_clock_cali s)\<rparr>
      in s1\<lparr>sys_counter_offset :=
               sys_counter_offset s1 + (if in_init then sys_counter_saved s1 else 0)\<rparr>)"

section \<open>The FRC2 driver\<close>

definition FRC_CLK_DIV_256 :: nat where
  "FRC_CLK_DIV_256 = 2"

definition FRC_FREQUENCY :: u64 where
  "FRC_FREQUENCY = drop_bit 8 80000000"

definition FRC_COUNTER_TO_US :: "u64 \<Rightarrow> u32" where
  "FRC_COUNTER_TO_US cnt = ucast (cnt * 1000000 div FRC_FREQUENCY)"

definition FRC_US_TO_COUNTER :: "u64 \<Rightarrow> u32" where
  "FRC_US_TO_COUNTER us = ucast (us * FRC_FREQUENCY div 1000000)"

definition FRC_OVERFLOW :: u32 where
  "FRC_OVERFLOW = FRC_US_TO_COUNTER (push_bit 32 1)"

text \<open>
  A write to the register \<^verbatim>\<open>frc2.load\<close>.  The hardware takes the written value as the
  new value of the counter, which is what the driver relies on when it restores the
  counter after a sleep.
\<close>

definition frc2_write_load :: "u32 \<Rightarrow> rtt_state \<Rightarrow> rtt_state" where
  "frc2_write_load v s = s\<lparr>frc2 := (frc2 s)\<lparr>load := v, count := v\<rparr>\<rparr>"

definition frc_init :: "rtt_state \<Rightarrow> rtt_state" where
  "frc_init s =
     s\<lparr>frc2 := (frc2 s)\<lparr>ctrl_clk_div := FRC_CLK_DIV_256, ctrl_reload := False,
                         ctrl_intr_hold := False, ctrl_enable := True,
                         frc2_alarm := FRC_OVERFLOW\<rparr>,
       frc_alarm := (frc_alarm s)\<lparr>frc_active := 0\<rparr>\<rparr>"

definition frc_poweron :: "rtt_state \<Rightarrow> rtt_state" where
  "frc_poweron s = s\<lparr>frc2 := (frc2 s)\<lparr>ctrl_enable := True\<rparr>, frc_int_enabled := True\<rparr>"

definition frc_poweroff :: "rtt_state \<Rightarrow> rtt_state" where
  "frc_poweroff s = s\<lparr>frc2 := (frc2 s)\<lparr>ctrl_enable := False\<rparr>, frc_int_enabled := False\<rparr>"

definition frc_get_counter :: "rtt_state \<Rightarrow> u32" where
  "frc_get_counter s = FRC_COUNTER_TO_US (ucast (count (frc2 s)))"

definition update_alarm :: "u32 \<Rightarrow> rtt_state \<Rightarrow> rtt_state" where
  "update_alarm counter s =
     (if frc_alarm_cb (frc_alarm s) \<noteq> None \<and> frc_alarm_set (frc_alarm s) > counter
      then s\<lparr>frc_alarm := (frc_alarm s)\<lparr>frc_active := frc_alarm_set (frc_alarm s)\<rparr>,
             frc2 := (frc2 s)\<lparr>frc2_alarm := frc_alarm_set (frc_alarm s)\<rparr>\<rparr>
      else s\<lparr>frc_alarm := (frc_alarm s)\<lparr>frc_active := 0\<rparr>,
             frc2 := (frc2 s)\<lparr>frc2_alarm := FRC_OVERFLOW\<rparr>\<rparr>)"

definition frc_set_alarm :: "u32 \<Rightarrow> rtt_cb_t option \<Rightarrow> arg_t \<Rightarrow> rtt_state \<Rightarrow> rtt_state" where
  "frc_set_alarm alarm_us cb a s =
     (let frc_counter = count (frc2 s);
          s1 = s\<lparr>frc_alarm := (frc_alarm s)
                  \<lparr>frc_alarm_set := FRC_US_TO_COUNTER (ucast alarm_us) mod FRC_OVERFLOW,
                   frc_alarm_cb := cb, frc_alarm_arg := a\<rparr>\<rparr>
      in update_alarm frc_counter s1)"

definition frc_clear_alarm :: "rtt_state \<Rightarrow> rtt_state" where
  "frc_clear_alarm s =
     s\<lparr>frc_alarm := (frc_alarm s)\<lparr>frc_alarm_set := 0, frc_alarm_cb := None,
                                   frc_alarm_arg := 0\<rparr>\<rparr>"

definition frc_save_counter :: "rtt_state \<Rightarrow> rtt_state" where
  "frc_save_counter s =
     s\<lparr>frc_counter_saved := count (frc2 s), frc_rtc_counter_saved := RTC_COUNTER s\<rparr>"

definition frc_restore_counter :: "platform \<Rightarrow> bool \<Rightarrow> rtt_state \<Rightarrow> rtt_state" where
  "frc_restore_counter P in_init s =
     (let rtc_counter = RTC_COUNTER s;
          rtc_diff = rtc_counter - frc_rtc_counter_saved s;
          diff_us = rtc_clk_to_us P rtc_diff (rtc_clock_cali s);
          frc_diff = FRC_US_TO_COUNTER (ucast diff_us)
      in frc2_write_load ((frc_counter_saved s + frc_diff) mod FRC_OVERFLOW) s)"

section \<open>The RTT core\<close>

subsection \<open>Calls through the driver table\<close>

definition hw_init :: "rtt_state \<Rightarrow> rtt_state" where
  "hw_init s = (case rtt_hw s of Rtt_hw_sys_driver \<Rightarrow> sys_init s
                               | Rtt_hw_frc_driver \<Rightarrow> frc_init s)"

definition hw_poweron :: "rtt_state \<Rightarrow> rtt_state" where
  "hw_poweron s = (case rtt_hw s of Rtt_hw_sys_driver \<Rightarrow> sys_poweron s
                                  | Rtt_hw_frc_driver \<Rightarrow> frc_poweron s)"

definition hw_poweroff :: "rtt_state \<Rightarrow> rtt_state" where
  "hw_poweroff s = (case rtt_hw s of Rtt_hw_sys_driver \<Rightarrow> sys_poweroff s
                                   | Rtt_hw_frc_driver \<Rightarrow> frc_poweroff s)"

definition hw_get_counter :: "rtt_state \<Rightarrow> u32" where
  "hw_get_counter s = (case rtt_hw s of Rtt_hw_sys_driver \<Rightarrow> sys_get_counter s
                                      | Rtt_hw_frc_driver \<Rightarrow> frc_get_counter s)"

definition hw_set_alarm :: "u32 \<Rightarrow> rtt_cb_t option \<Rightarrow> arg_t \<Rightarrow> rtt_state \<Rightarrow> rtt_state" where
  "hw_set_alarm alarm_us cb a s =
     (case rtt_hw s of Rtt_hw_sys_driver \<Rightarrow> sys_set_alarm alarm_us cb a s
                     | Rtt_hw_frc_driver \<Rightarrow> frc_set_alarm alarm_us cb a s)"

definition hw_clear_alarm :: "rtt_state \<Rightarrow> rtt_state" where
  "hw_clear_alarm s = (case rtt_hw s of Rtt_hw_sys_driver \<Rightarrow> sys_clear_alarm s
                                      | Rtt_hw_frc_driver \<Rightarrow> frc_clear_alarm s)"

definition hw_save_counter :: "rtt_state \<Rightarrow> rtt_state" where
  "hw_save_counter s = (case rtt_hw s of Rtt_hw_sys_driver \<Rightarrow> sys_save_counter s
                                       | Rtt_hw_frc_driver \<Rightarrow> frc_save_counter s)"

definition hw_restore_counter :: "platform \<Rightarrow> bool \<Rightarrow> rtt_state \<Rightarrow> rtt_state" where
  "hw_restore_counter P in_init s =
     (case rtt_hw s of Rtt_hw_sys_driver \<Rightarrow> sys_restore_counter P in_init s
                     | Rtt_hw_frc_driver \<Rightarrow> frc_restore_counter P in_init s)"

subsection \<open>The functions of the core\<close>

definition rtt_get_counter :: "rtt_state \<Rightarrow> u32" where
  "rtt_get_counter s = hw_get_counter s + rtt_offset s"

definition rtt_update_hw_alarm :: "rtt_state \<Rightarrow> rtt_state" where
  "rtt_update_hw_alarm s =
     (if alarm_cb (rtt_counter s) \<noteq> None \<and>
         (alarm (rtt_counter s) > rtt_get_counter s \<or> overflow_cb (rtt_counter s) = None)
      then hw_set_alarm (alarm (rtt_counter s) - rtt_offset s) (Some Rtt_isr) 0
             (s\<lparr>rtt_counter := (rtt_counter s)
                  \<lparr>alarm_active := alarm (rtt_counter s), alarm_set := True\<rparr>\<rparr>)
      else if overflow_cb (rtt_counter s) \<noteq> None
      then hw_set_alarm (0 - rtt_offset s) (Some Rtt_isr) 0
             (s\<lparr>rtt_counter := (rtt_counter s)\<lparr>alarm_active := 0, alarm_set := True\<rparr>\<rparr>)
      else hw_clear_alarm (s\<lparr>rtt_counter := (rtt_counter s)\<lparr>alarm_set := False\<rparr>\<rparr>))"

definition rtt_poweron :: "rtt_state \<Rightarrow> rtt_state" where
  "rtt_poweron s = hw_poweron s"

definition rtt_poweroff :: "rtt_state \<Rightarrow> rtt_state" where
  "rtt_poweroff s = hw_poweroff s"

definition rtt_set_overflow_cb :: "app_cb option \<Rightarrow> arg_t \<Rightarrow> rtt_state \<Rightarrow> rtt_state" where
  "rtt_set_overflow_cb cb a s =
     rtt_update_hw_alarm
       (s\<lparr>rtt_counter := (rtt_counter s)\<lparr>overflow_cb := cb, overflow_arg := a\<rparr>\<rparr>)"

definition rtt_clear_overflow_cb :: "rtt_state \<Rightarrow> rtt_state" where
  "rtt_clear_overflow_cb s =
     rtt_update_hw_alarm
       (s\<lparr>rtt_counter := (rtt_counter s)\<lparr>overflow_cb := None, overflow_arg := 0\<rparr>\<rparr>)"

definition rtt_set_counter :: "u32 \<Rightarrow> rtt_state \<Rightarrow> rtt_state" where
  "rtt_set_counter counter s =
     (let rtt_current = hw_get_counter s
      in rtt_update_hw_alarm (s\<lparr>rtt_offset := counter - rtt_current\<rparr>))"

definition rtt_set_alarm :: "u32 \<Rightarrow> app_cb option \<Rightarrow> arg_t \<Rightarrow> rtt_state \<Rightarrow> rtt_state" where
  "rtt_set_alarm alm cb a s =
     rtt_update_hw_alarm
       (s\<lparr>rtt_counter := (rtt_counter s)\<lparr>alarm := alm, alarm_cb := cb, alarm_arg := a\<rparr>\<rparr>)"

definition rtt_clear_alarm :: "rtt_state \<Rightarrow> rtt_state" where
  "rtt_clear_alarm s =
     rtt_update_hw_alarm
       (s\<lparr>rtt_counter := (rtt_counter s)\<lparr>alarm := 0, alarm_cb := None, alarm_arg := 0\<rparr>\<rparr>)"

definition rtt_get_alarm :: "rtt_state \<Rightarrow> u32" where
  "rtt_get_alarm s = alarm (rtt_counter s)"

definition rtt_save_counter :: "rtt_state \<Rightarrow> rtt_state" where
  "rtt_save_counter s = hw_save_counter s"

definition rtt_restore_counter :: "platform \<Rightarrow> bool \<Rightarrow> rtt_state \<Rightarrow> rtt_state" where
  "rtt_restore_counter P in_init s = hw_restore_counter P in_init s"

definition rtt_init :: "platform \<Rightarrow> rtt_state \<Rightarrow> rtt_state" where
  "rtt_init P s =
     rtt_poweron (rtt_clear_overflow_cb (rtt_clear_alarm (rtt_restore_counter P True (hw_init s))))"

text \<open>
  \<^verbatim>\<open>rtt_pm_sleep_enter\<close> returns a \<^verbatim>\<open>uint32_t\<close>: the 64-bit \<open>t_diff\<close> is cut to its low
  32 bits by the \<^verbatim>\<open>return\<close>.  The parameter \<^verbatim>\<open>mode\<close> is not used by the function.
\<close>

definition rtt_pm_sleep_enter :: "platform \<Rightarrow> nat \<Rightarrow> rtt_state \<Rightarrow> u32 \<times> rtt_state" where
  "rtt_pm_sleep_enter P mode s =
     (let s1 = rtt_save_counter s
      in if \<not> alarm_set (rtt_counter s1) then (0, s1)
         else
           let counter = rtt_get_counter s1;
               t_diff = RTT_TICKS_TO_US P (alarm_active (rtt_counter s1) - counter)
           in if t_diff \<noteq> 0
              then (ucast t_diff,
                    s1\<lparr>rtt_counter := (rtt_counter s1)\<lparr>wakeup := True\<rparr>,
                       sleep_timer_wakeup := Some t_diff\<rparr>)
              else (ucast t_diff, s1\<lparr>rtt_counter := (rtt_counter s1)\<lparr>wakeup := False\<rparr>\<rparr>))"

subsection \<open>Interrupt dispatch\<close>

text \<open>
  The interrupt handlers return, next to the state, the calls of application callbacks
  they made, in order, each with the slot it was taken from and the argument it was
  given.
\<close>

datatype invocation = Alarm_call app_cb arg_t | Overflow_call app_cb arg_t | Driver_call app_cb arg_t

definition rtt_isr :: "platform \<Rightarrow> rtt_state \<Rightarrow> rtt_state \<times> invocation list" where
  "rtt_isr P s =
     (let alm = alarm_active (rtt_counter s);
          s1 = (if wakeup (rtt_counter s)
                then s\<lparr>rtt_counter := (rtt_counter s)\<lparr>wakeup := False\<rparr>\<rparr> else s);
          (s2, l2) =
            (case alarm_cb (rtt_counter s1) of
               Some cb \<Rightarrow>
                 if alm = alarm (rtt_counter s1)
                 then (app_run P cb (alarm_arg (rtt_counter s1)) (rtt_clear_alarm s1),
                       [Alarm_call cb (alarm_arg (rtt_counter s1))])
                 else (s1, [])
             | None \<Rightarrow> (s1, []))
      in if alm = 0
         then
           let s3 = rtt_update_hw_alarm s2
           in (case overflow_cb (rtt_counter s3) of
                 Some ocb \<Rightarrow>
                   (app_run P ocb (overflow_arg (rtt_counter s3)) s3,
                    l2 @ [Overflow_call ocb (overflow_arg (rtt_counter s3))])
               | None \<Rightarrow> (s3, l2))
         else (s2, l2))"

text \<open>A call through a driver's callback slot.\<close>

definition call_cb :: "platform \<Rightarrow> rtt_cb_t \<Rightarrow> arg_t \<Rightarrow> rtt_state \<Rightarrow> rtt_state \<times> invocation list" where
  "call_cb P cb a s =
     (case cb of Rtt_isr \<Rightarrow> rtt_isr P s
               | App f \<Rightarrow> (app_run P f a s, [Driver_call f a]))"

definition frc_isr :: "platform \<Rightarrow> rtt_state \<Rightarrow> rtt_state \<times> invocation list" where
  "frc_isr P s =
     (let counter = count (frc2 s) mod FRC_OVERFLOW;
          s1 = (if frc_active (frc_alarm s) = 0 then frc2_write_load counter s else s);
          (s2, l2) =
            (case frc_alarm_cb (frc_alarm s1) of
               Some cb \<Rightarrow>
                 if frc_active (frc_alarm s1) = frc_alarm_set (frc_alarm s1)
                 then call_cb P cb (frc_alarm_arg (frc_alarm s1))
                        (s1\<lparr>frc_alarm := (frc_alarm s1)\<lparr>frc_alarm_cb := None,
                                                         frc_alarm_arg := 0\<rparr>\<rparr>)
                 else (s1, [])
             | None \<Rightarrow> (s1, []))
      in (update_alarm counter s2, l2))"

text \<open>
  \<^verbatim>\<open>rtt_pm_sleep_exit\<close>.  The flag stands for the test
  \<^verbatim>\<open>cause == ESP_SLEEP_WAKEUP_TIMER\<close>.
\<close>

definition rtt_pm_sleep_exit :: "platform \<Rightarrow> bool \<Rightarrow> rtt_state \<Rightarrow> rtt_state \<times> invocation list" where
  "rtt_pm_sleep_exit P timer_cause s =
     (let s1 = rtt_restore_counter P False s
      in if timer_cause then rtt_isr P s1 else (s1, []))"

section \<open>The environment of the driver\<close>

text \<open>
  Modelled from the spec: the software timer service behind \<^verbatim>\<open>xtimer_set\<close> and
  \<^verbatim>\<open>xtimer_remove\<close> is not part of the three files.  It is a one-shot timer: when a
  pending timer expires it is taken off the queue and its completion handler is called
  with its argument; nothing happens when no timer is pending.
\<close>

definition xtimer_fire :: "platform \<Rightarrow> rtt_state \<Rightarrow> rtt_state \<times> invocation list" where
  "xtimer_fire P s =
     (case queued (sys_timer s) of
        None \<Rightarrow> (s, [])
      | Some d \<Rightarrow>
          let s1 = s\<lparr>sys_timer := (sys_timer s)\<lparr>queued := None\<rparr>\<rparr>
          in (case callback (sys_timer s1) of
                None \<Rightarrow> (s1, [])
              | Some cb \<Rightarrow> call_cb P cb (arg (sys_timer s1)) s1))"

text \<open>The interrupt of the active driver's hardware is delivered.\<close>

definition hw_interrupt :: "platform \<Rightarrow> rtt_state \<Rightarrow> rtt_state \<times> invocation list" where
  "hw_interrupt P s = (case rtt_hw s of Rtt_hw_sys_driver \<Rightarrow> xtimer_fire P s
                                      | Rtt_hw_frc_driver \<Rightarrow> frc_isr P s)"

text \<open>
  Time passes: the system time advances by \<open>d_us\<close>, the RTC counter by \<open>d_rtc\<close> and the
  FRC2 counter by \<open>d_frc\<close>.  No code of the driver runs.
\<close>

definition time_passes :: "u32 \<Rightarrow> u32 \<Rightarrow> u32 \<Rightarrow> rtt_state \<Rightarrow> rtt_state" where
  "time_passes d_us d_rtc d_frc s =
     s\<lparr>system_time := system_time s + d_us, RTC_COUNTER := RTC_COUNTER s + d_rtc,
       frc2 := (frc2 s)\<lparr>count := count (frc2 s) + d_frc\<rparr>\<rparr>"

text \<open>
  An execution is a list of events: time passing, an interrupt of the hardware being
  delivered (at any moment, so that an interrupt already in flight is covered), and calls
  of the public functions.
\<close>

datatype event =
    Time_passes u32 u32 u32
  | Hw_interrupt
  | Call_set_alarm u32 "app_cb option" arg_t
  | Call_clear_alarm
  | Call_set_overflow_cb "app_cb option" arg_t
  | Call_clear_overflow_cb
  | Call_set_counter u32
  | Call_save_counter
  | Call_restore_counter bool
  | Call_pm_sleep_enter nat
  | Call_pm_sleep_exit bool

fun step :: "platform \<Rightarrow> event \<Rightarrow> rtt_state \<Rightarrow> rtt_state \<times> invocation list" where
  "step P (Time_passes d_us d_rtc d_frc) s = (time_passes d_us d_rtc d_frc s, [])"
| "step P Hw_interrupt s = hw_interrupt P s"
| "step P (Call_set_alarm v cb a) s = (rtt_set_alarm v cb a s, [])"
| "step P Call_clear_alarm s = (rtt_clear_alarm s, [])"
| "step P (Call_set_overflow_cb cb a) s = (rtt_set_overflow_cb cb a s, [])"
| "step P Call_clear_overflow_cb s = (rtt_clear_overflow_cb s, [])"
| "step P (Call_set_counter v) s = (rtt_set_counter v s, [])"
| "step P Call_save_counter s = (rtt_save_counter s, [])"
| "step P (Call_restore_counter in_init) s = (rtt_restore_counter P in_init s, [])"
| "step P (Call_pm_sleep_enter mode) s = (snd (rtt_pm_sleep_enter P mode s), [])"
| "step P (Call_pm_sleep_exit timer_cause) s = rtt_pm_sleep_exit P timer_cause s"

fun run_events :: "platform \<Rightarrow> event list \<Rightarrow> rtt_state \<Rightarrow> rtt_state \<times> invocation list" where
  "run_events P [] s = (s, [])"
| "run_events P (e # es) s =
     (case step P e s of (s1, l1) \<Rightarrow>
        (case run_events P es s1 of (s2, l2) \<Rightarrow> (s2, l1 @ l2)))"


fun installs_alarm :: "event \<Rightarrow> bool" where
  "installs_alarm (Call_set_alarm v (Some cb) a) = True"
| "installs_alarm e = False"

fun is_alarm_call :: "invocation \<Rightarrow> bool" where
  "is_alarm_call (Alarm_call f a) = True"
| "is_alarm_call i = False"

section \<open>Predicates of the specification\<close>

text \<open>
  What the driver's state looks like when the hardware has been armed for the value \<open>v\<close>
  with the core's handler: the software timer is queued for the distance from the
  driver's counter to \<open>v\<close>; the FRC2 driver holds \<open>v\<close> in timer ticks, and the compare
  register holds it when it lies ahead of the timer's count and the wrap value otherwise.
\<close>

definition hw_armed_for :: "u32 \<Rightarrow> rtt_state \<Rightarrow> bool" where
  "hw_armed_for v s =
     (case rtt_hw s of
        Rtt_hw_sys_driver \<Rightarrow>
          sys_timer s = \<lparr>callback = Some Rtt_isr, arg = 0,
                         queued = Some (SYS_COUNT_TO_US (ucast (v - sys_get_counter s)))\<rparr>
      | Rtt_hw_frc_driver \<Rightarrow>
          frc_alarm s =
            \<lparr>frc_alarm_set = FRC_US_TO_COUNTER (ucast v) mod FRC_OVERFLOW,
             frc_alarm_cb = Some Rtt_isr, frc_alarm_arg = 0,
             frc_active = (if FRC_US_TO_COUNTER (ucast v) mod FRC_OVERFLOW > count (frc2 s)
                           then FRC_US_TO_COUNTER (ucast v) mod FRC_OVERFLOW else 0)\<rparr> \<and>
          frc2_alarm (frc2 s) =
            (if FRC_US_TO_COUNTER (ucast v) mod FRC_OVERFLOW > count (frc2 s)
             then FRC_US_TO_COUNTER (ucast v) mod FRC_OVERFLOW else FRC_OVERFLOW))"

definition hw_alarm_cleared :: "rtt_state \<Rightarrow> bool" where
  "hw_alarm_cleared s =
     (case rtt_hw s of
        Rtt_hw_sys_driver \<Rightarrow> sys_timer s = \<lparr>callback = None, arg = 0, queued = None\<rparr>
      | Rtt_hw_frc_driver \<Rightarrow>
          frc_alarm_set (frc_alarm s) = 0 \<and> frc_alarm_cb (frc_alarm s) = None \<and>
          frc_alarm_arg (frc_alarm s) = 0)"

text \<open>The three outcomes of the selection of the next hardware event, read off a state.\<close>

definition selection_outcome :: "rtt_state \<Rightarrow> bool" where
  "selection_outcome s =
     (if alarm_cb (rtt_counter s) \<noteq> None \<and>
         (alarm (rtt_counter s) > rtt_get_counter s \<or> overflow_cb (rtt_counter s) = None)
      then alarm_set (rtt_counter s) \<and> alarm_active (rtt_counter s) = alarm (rtt_counter s) \<and>
           hw_armed_for (alarm (rtt_counter s) - rtt_offset s) s
      else if overflow_cb (rtt_counter s) \<noteq> None
      then alarm_set (rtt_counter s) \<and> alarm_active (rtt_counter s) = 0 \<and>
           hw_armed_for (0 - rtt_offset s) s
      else \<not> alarm_set (rtt_counter s) \<and> hw_alarm_cleared s)"

definition rtt_inv :: "rtt_state \<Rightarrow> bool" where
  "rtt_inv s =
     ((alarm_set (rtt_counter s) \<longleftrightarrow>
         alarm_cb (rtt_counter s) \<noteq> None \<or> overflow_cb (rtt_counter s) \<noteq> None) \<and>
      (alarm_set (rtt_counter s) \<and> alarm_active (rtt_counter s) \<noteq> 0 \<longrightarrow>
         alarm_active (rtt_counter s) = alarm (rtt_counter s)))"

subsection \<open>Concrete inputs\<close>

text \<open>
  A state in which the counter reads 1 000 000 on either driver: the system time is
  1 000 000 microseconds and the FRC2 timer has counted 312 500 ticks.  No callback is
  registered and all offsets and saved values are zero.
\<close>

definition example_state :: "rtt_hw_driver_t \<Rightarrow> rtt_state" where
  "example_state d =
     \<lparr>rtt_counter = \<lparr>alarm = 0, alarm_cb = None, overflow_cb = None, alarm_arg = 0,
                      overflow_arg = 0, alarm_active = 0, alarm_set = False, wakeup = False\<rparr>,
      rtt_offset = 0, rtt_hw = d,
      sys_rtc_counter_saved = 0, sys_counter_saved = 0, sys_counter_offset = 0,
      sys_timer = \<lparr>callback = None, arg = 0, queued = None\<rparr>,
      frc2 = \<lparr>load = 0, count = 312500, ctrl_intr_hold = False, ctrl_clk_div = 2,
               ctrl_reload = False, ctrl_enable = True, frc2_alarm = 1342177280\<rparr>,
      frc_alarm = \<lparr>frc_alarm_set = 0, frc_alarm_cb = None, frc_alarm_arg = 0, frc_active = 0\<rparr>,
      frc_rtc_counter_saved = 0, frc_counter_saved = 0, frc_int_enabled = True,
      system_time = 1000000, RTC_COUNTER = 0, rtc_clock_cali = 0,
      sleep_timer_wakeup = None\<rparr>"

text \<open>
  A platform on which a tick is a microsecond, the RTC conversion multiplies by the
  period and drops twelve fraction bits, and callbacks leave the state alone.
\<close>

definition example_platform :: platform where
  "example_platform =
     \<lparr>RTT_TICKS_TO_US = ucast,
      rtc_clk_to_us = (\<lambda>cycles period. ucast (drop_bit 12 (ucast cycles * ucast period :: u64))),
      app_run = (\<lambda>f a s. s)\<rparr>"

text \<open>
  The example state on the FRC2 driver with a saved timer count of 100 that differs from
  the running count of 312 500; the RTC counter has not moved since the save.
\<close>

definition frc_saved_state :: rtt_state where
  "frc_saved_state = (example_state Rtt_hw_frc_driver)\<lparr>frc_counter_saved := 100\<rparr>"

text \<open>
  Two armed states reached from the example state with no overflow callback: an alarm set
  for the value the counter has just reached, and an alarm set for a value the counter
  has passed by 1000 ticks.
\<close>

definition due_alarm_state :: "rtt_hw_driver_t \<Rightarrow> rtt_state" where
  "due_alarm_state d = rtt_set_alarm 1000000 (Some 1) 7 (example_state d)"

definition passed_alarm_state :: "rtt_hw_driver_t \<Rightarrow> rtt_state" where
  "passed_alarm_state d = rtt_set_alarm 999000 (Some 1) 7 (example_state d)"



text \<open>
  No callback of the application installs an alarm when it is called with the alarm slot
  empty.
\<close>

definition quiet_callbacks :: "platform \<Rightarrow> bool" where
  "quiet_callbacks P =
     (\<forall>f a t. alarm_cb (rtt_counter t) = None \<longrightarrow>
               alarm_cb (rtt_counter (app_run P f a t)) = None)"

text \<open>No call in the list was made through the alarm slot.\<close>

definition no_alarm_call :: "invocation list \<Rightarrow> bool" where
  "no_alarm_call l = (\<forall>x \<in> set l. \<not> is_alarm_call x)"


definition scenario_events :: "event list" where
  "scenario_events = [Call_set_alarm 1005000 (Some 1) 7, Time_passes 5000 0 0, Hw_interrupt]"






section \<open>Properties\<close>

lemma sys_set_alarm_assert_holds: "sys_set_alarm_assert alm"
  unfolding sys_set_alarm_assert_def RTT_MAX_VALUE_def
  using unsigned_less [of alm, where ?'a = nat] by (simp add: word_le_nat_alt)

subsection \<open>What the driver calls leave alone\<close>

lemmas hw_defs = hw_set_alarm_def hw_clear_alarm_def hw_get_counter_def
  sys_set_alarm_def sys_clear_alarm_def sys_get_counter_def
  frc_set_alarm_def frc_clear_alarm_def frc_get_counter_def update_alarm_def

lemma hw_set_alarm_frame [simp]:
  "rtt_counter (hw_set_alarm v cb a s) = rtt_counter s"
  "rtt_offset (hw_set_alarm v cb a s) = rtt_offset s"
  "rtt_hw (hw_set_alarm v cb a s) = rtt_hw s"
  "hw_get_counter (hw_set_alarm v cb a s) = hw_get_counter s"
  by (simp_all add: hw_defs Let_def split: rtt_hw_driver_t.splits)

lemma hw_clear_alarm_frame [simp]:
  "rtt_counter (hw_clear_alarm s) = rtt_counter s"
  "rtt_offset (hw_clear_alarm s) = rtt_offset s"
  "rtt_hw (hw_clear_alarm s) = rtt_hw s"
  "hw_get_counter (hw_clear_alarm s) = hw_get_counter s"
  by (simp_all add: hw_defs split: rtt_hw_driver_t.splits)

lemma hw_get_counter_core_update [simp]:
  "hw_get_counter (s\<lparr>rtt_counter := c\<rparr>) = hw_get_counter s"
  "hw_get_counter (s\<lparr>rtt_offset := x\<rparr>) = hw_get_counter s"
  by (simp_all add: hw_defs split: rtt_hw_driver_t.splits)

lemma rtt_update_hw_alarm_frame [simp]:
  "rtt_offset (rtt_update_hw_alarm s) = rtt_offset s"
  "rtt_hw (rtt_update_hw_alarm s) = rtt_hw s"
  "hw_get_counter (rtt_update_hw_alarm s) = hw_get_counter s"
  "rtt_get_counter (rtt_update_hw_alarm s) = rtt_get_counter s"
  by (simp_all add: rtt_update_hw_alarm_def rtt_get_counter_def)

lemma rtt_update_hw_alarm_counter:
  "rtt_counter (rtt_update_hw_alarm s) =
     (if alarm_cb (rtt_counter s) \<noteq> None \<and>
         (alarm (rtt_counter s) > rtt_get_counter s \<or> overflow_cb (rtt_counter s) = None)
      then (rtt_counter s)\<lparr>alarm_active := alarm (rtt_counter s), alarm_set := True\<rparr>
      else if overflow_cb (rtt_counter s) \<noteq> None
      then (rtt_counter s)\<lparr>alarm_active := 0, alarm_set := True\<rparr>
      else (rtt_counter s)\<lparr>alarm_set := False\<rparr>)"
  by (simp add: rtt_update_hw_alarm_def)

lemma rtt_update_hw_alarm_slots [simp]:
  "alarm (rtt_counter (rtt_update_hw_alarm s)) = alarm (rtt_counter s)"
  "alarm_cb (rtt_counter (rtt_update_hw_alarm s)) = alarm_cb (rtt_counter s)"
  "alarm_arg (rtt_counter (rtt_update_hw_alarm s)) = alarm_arg (rtt_counter s)"
  "overflow_cb (rtt_counter (rtt_update_hw_alarm s)) = overflow_cb (rtt_counter s)"
  "overflow_arg (rtt_counter (rtt_update_hw_alarm s)) = overflow_arg (rtt_counter s)"
  "wakeup (rtt_counter (rtt_update_hw_alarm s)) = wakeup (rtt_counter s)"
  by (simp_all add: rtt_update_hw_alarm_counter)

lemma hw_poweron_frame [simp]:
  "rtt_counter (hw_poweron s) = rtt_counter s"
  "rtt_offset (hw_poweron s) = rtt_offset s"
  "rtt_get_counter (hw_poweron s) = rtt_get_counter s"
  "hw_armed_for v (hw_poweron s) = hw_armed_for v s"
  "hw_alarm_cleared (hw_poweron s) = hw_alarm_cleared s"
  by (simp_all add: hw_poweron_def sys_poweron_def frc_poweron_def
      rtt_get_counter_def hw_get_counter_def sys_get_counter_def frc_get_counter_def
      hw_armed_for_def hw_alarm_cleared_def split: rtt_hw_driver_t.splits)

subsection \<open>The selection of the next hardware event\<close>

lemma hw_armed_for_set_alarm:
  "hw_armed_for v (hw_set_alarm v (Some Rtt_isr) 0 s)"
  by (simp add: hw_armed_for_def hw_defs Let_def split: rtt_hw_driver_t.splits)

lemma hw_alarm_cleared_clear_alarm: "hw_alarm_cleared (hw_clear_alarm s)"
  by (simp add: hw_alarm_cleared_def hw_defs split: rtt_hw_driver_t.splits)

lemma selection_outcome_update: "selection_outcome (rtt_update_hw_alarm s)"
  unfolding selection_outcome_def
  by (simp add: rtt_update_hw_alarm_counter)
     (auto simp: rtt_update_hw_alarm_def hw_armed_for_set_alarm hw_alarm_cleared_clear_alarm)

lemma selection_outcome_poweron: "selection_outcome (hw_poweron s) = selection_outcome s"
  by (simp add: selection_outcome_def)

lemma rtt_inv_update: "rtt_inv (rtt_update_hw_alarm s)"
  by (auto simp: rtt_inv_def rtt_update_hw_alarm_counter)

lemma rtt_inv_poweron: "rtt_inv (hw_poweron s) = rtt_inv s"
  by (simp add: rtt_inv_def)

lemmas core_op_defs = rtt_init_def rtt_set_alarm_def rtt_clear_alarm_def
  rtt_set_overflow_cb_def rtt_clear_overflow_cb_def rtt_set_counter_def rtt_poweron_def

lemmas eval_defs = example_state_def example_platform_def rtt_update_hw_alarm_def
  rtt_get_counter_def hw_defs SYS_US_TO_COUNT_def SYS_COUNT_TO_US_def RTT_FREQUENCY_def
  FRC_COUNTER_TO_US_def FRC_US_TO_COUNTER_def FRC_FREQUENCY_def FRC_OVERFLOW_def
  hw_armed_for_def hw_alarm_cleared_def

text \<open>
  C1.  Each of \<^verbatim>\<open>rtt_init\<close>, \<^verbatim>\<open>rtt_set_alarm\<close>, \<^verbatim>\<open>rtt_clear_alarm\<close>,
  \<^verbatim>\<open>rtt_set_overflow_cb\<close>, \<^verbatim>\<open>rtt_clear_overflow_cb\<close> and \<^verbatim>\<open>rtt_set_counter\<close> leaves
  a state with exactly one of three outcomes.  If an alarm callback is registered and the
  alarm value is greater than the counter or no overflow callback is registered, an event
  is armed, \<open>alarm_active\<close> is the alarm value and the driver is armed for it.  Otherwise,
  if an overflow callback is registered, an event is armed, \<open>alarm_active\<close> is 0 and the
  driver is armed for the wrap point.  Otherwise no event is armed and the driver's alarm
  is cleared.  The driver has one alarm slot, so at most one event is armed.
\<close>

theorem next_event_selection:
  "selection_outcome (rtt_init P s) \<and>
   selection_outcome (rtt_set_alarm v cb a s) \<and>
   selection_outcome (rtt_clear_alarm s) \<and>
   selection_outcome (rtt_set_overflow_cb ocb oa s) \<and>
   selection_outcome (rtt_clear_overflow_cb s) \<and>
   selection_outcome (rtt_set_counter c s)"
  by (simp add: core_op_defs selection_outcome_poweron selection_outcome_update)

theorem next_event_selection_witness:
  "alarm_set (rtt_counter (rtt_set_alarm 1005000 (Some 1) 7 (example_state Rtt_hw_sys_driver))) \<and>
   alarm_active (rtt_counter (rtt_set_alarm 1005000 (Some 1) 7 (example_state Rtt_hw_sys_driver)))
     = 1005000 \<and>
   queued (sys_timer (rtt_set_alarm 1005000 (Some 1) 7 (example_state Rtt_hw_sys_driver)))
     = Some 5000 \<and>
   frc2_alarm (frc2 (rtt_set_alarm 1005000 (Some 1) 7 (example_state Rtt_hw_frc_driver)))
     = 314062"
  using next_event_selection [of example_platform "example_state Rtt_hw_sys_driver"
      1005000 "Some 1" 7 None 0 0]
    next_event_selection [of example_platform "example_state Rtt_hw_frc_driver"
      1005000 "Some 1" 7 None 0 0]
  by (simp add: selection_outcome_def rtt_set_alarm_def eval_defs Let_def)

text \<open>
  C10.  After \<^verbatim>\<open>rtt_init\<close> and after each of \<^verbatim>\<open>rtt_set_alarm\<close>, \<^verbatim>\<open>rtt_clear_alarm\<close>,
  \<^verbatim>\<open>rtt_set_overflow_cb\<close>, \<^verbatim>\<open>rtt_clear_overflow_cb\<close> and \<^verbatim>\<open>rtt_set_counter\<close>, whatever
  the state before: \<open>alarm_set\<close> is true if and only if the alarm callback or the overflow
  callback is registered, and when \<open>alarm_set\<close> is true and \<open>alarm_active\<close> is not 0,
  \<open>alarm_active\<close> is the alarm value requested by the caller.  \<^verbatim>\<open>rtt_clear_alarm\<close> also
  resets the stored alarm value, so \<^verbatim>\<open>rtt_get_alarm\<close> returns 0 after it.
\<close>

theorem alarm_state_invariant:
  "rtt_inv (rtt_init P s) \<and>
   rtt_inv (rtt_set_alarm v cb a s) \<and>
   rtt_inv (rtt_clear_alarm s) \<and>
   rtt_inv (rtt_set_overflow_cb ocb oa s) \<and>
   rtt_inv (rtt_clear_overflow_cb s) \<and>
   rtt_inv (rtt_set_counter c s) \<and>
   rtt_get_alarm (rtt_clear_alarm s) = 0"
  by (simp add: core_op_defs rtt_inv_poweron rtt_inv_update rtt_get_alarm_def)

theorem alarm_state_invariant_witness:
  "alarm_set (rtt_counter (rtt_set_alarm 1005000 (Some 1) 7 (example_state Rtt_hw_frc_driver))) \<and>
   alarm_active (rtt_counter (rtt_set_alarm 1005000 (Some 1) 7 (example_state Rtt_hw_frc_driver)))
     \<noteq> 0 \<and>
   alarm_active (rtt_counter (rtt_set_alarm 1005000 (Some 1) 7 (example_state Rtt_hw_frc_driver)))
     = alarm (rtt_counter (rtt_set_alarm 1005000 (Some 1) 7 (example_state Rtt_hw_frc_driver))) \<and>
   \<not> alarm_set (rtt_counter (rtt_clear_alarm (example_state Rtt_hw_frc_driver))) \<and>
   rtt_get_alarm (rtt_clear_alarm (example_state Rtt_hw_frc_driver)) = 0"
  using alarm_state_invariant [of example_platform "example_state Rtt_hw_frc_driver"
      1005000 "Some 1" 7 None 0 0]
  by (simp add: rtt_inv_def rtt_set_alarm_def rtt_clear_alarm_def eval_defs Let_def)

subsection \<open>Arithmetic of the conversion macros\<close>

lemma frc_scale_nat: "(n * 1000000 div 312500 :: nat) = n * 16 div 5"
proof -
  have "n * 1000000 = 62500 * (n * 16)" by simp
  moreover have "(312500::nat) = 62500 * 5" by simp
  ultimately show ?thesis by (metis div_mult_mult1 zero_neq_numeral)
qed

lemma frc_wrap_nat:
  "((n mod 1342177280) * 16 div 5) mod 4294967296 = (n * 16 div 5) mod (4294967296::nat)"
proof -
  define q r where "q = n div 1342177280" and "r = n mod 1342177280"
  have n: "n = 1342177280 * q + r" by (simp add: q_def r_def)
  have "n * 16 = r * 16 + (q * 4294967296) * 5" by (simp add: n)
  then have "n * 16 div 5 = r * 16 div 5 + q * 4294967296" by simp
  then show ?thesis by (simp add: r_def)
qed

lemma unat_ucast_u32_u64: "unat (ucast (c::u32) :: u64) = unat c"
proof -
  have "unat c < 2 ^ 32" using unsigned_less [of c, where ?'a = nat] by simp
  then have "unat c < 2 ^ 64" by simp
  then show ?thesis by (simp add: unsigned_ucast_eq take_bit_nat_eq_self)
qed

lemma unat_ucast_u64_u32: "unat (ucast (c::u64) :: u32) = unat c mod 4294967296"
  by (simp add: unsigned_ucast_eq take_bit_eq_mod)

lemma unat_FRC_COUNTER_TO_US:
  "unat (FRC_COUNTER_TO_US (ucast (c::u32))) = (unat c * 16 div 5) mod 4294967296"
proof -
  have lt: "unat c < 4294967296" using unsigned_less [of c, where ?'a = nat] by simp
  then have "unat c * 1000000 < 2 ^ 64" by simp
  then have m: "unat ((ucast c :: u64) * 1000000) = unat c * 1000000"
    by (simp add: unat_mult_lem [THEN iffD1] unat_ucast_u32_u64)
  have "unat ((ucast c :: u64) * 1000000 div 312500) = unat c * 1000000 div 312500"
    by (simp add: unat_div m)
  then show ?thesis
    by (simp add: FRC_COUNTER_TO_US_def FRC_FREQUENCY_def unat_ucast_u64_u32 frc_scale_nat)
qed

lemma FRC_OVERFLOW_value: "FRC_OVERFLOW = 1342177280"
  by (simp add: FRC_OVERFLOW_def FRC_US_TO_COUNTER_def FRC_FREQUENCY_def)

lemma FRC_COUNTER_TO_US_mod:
  "FRC_COUNTER_TO_US (ucast (c mod FRC_OVERFLOW)) = FRC_COUNTER_TO_US (ucast (c::u32))"
  by (simp add: word_unat_eq_iff unat_FRC_COUNTER_TO_US FRC_OVERFLOW_value unat_mod frc_wrap_nat)

lemma SYS_US_TO_COUNT_id: "SYS_US_TO_COUNT (ucast (x::u32)) = x"
proof -
  have lt: "unat x < 4294967296" using unsigned_less [of x, where ?'a = nat] by simp
  then have "unat x * 1000000 < 2 ^ 64" by simp
  then have m: "unat ((ucast x :: u64) * 1000000) = unat x * 1000000"
    by (simp add: unat_mult_lem [THEN iffD1] unat_ucast_u32_u64)
  have "unat ((ucast x :: u64) * 1000000 div 1000000) = unat x"
    by (simp add: unat_div m)
  then show ?thesis using lt
    by (simp add: SYS_US_TO_COUNT_def RTT_FREQUENCY_def word_unat_eq_iff unat_ucast_u64_u32)
qed

lemma FRC_US_TO_COUNTER_small: "d \<le> 1 \<Longrightarrow> FRC_US_TO_COUNTER (ucast (d::u32)) = 0"
proof -
  assume "d \<le> 1"
  then have "d = 0 \<or> d = 1" by (auto simp: word_le_nat_alt word_unat_eq_iff)
  then show ?thesis by (auto simp: FRC_US_TO_COUNTER_def FRC_FREQUENCY_def)
qed

subsection \<open>Reading, setting, saving and restoring the counter\<close>

lemma hw_save_frame [simp]:
  "hw_get_counter (hw_save_counter s) = hw_get_counter s"
  "rtt_offset (hw_save_counter s) = rtt_offset s"
  "rtt_counter (hw_save_counter s) = rtt_counter s"
  "rtt_hw (hw_save_counter s) = rtt_hw s"
  by (simp_all add: hw_save_counter_def sys_save_counter_def frc_save_counter_def
      hw_get_counter_def sys_get_counter_def frc_get_counter_def split: rtt_hw_driver_t.splits)

text \<open>
  C7.  \<^verbatim>\<open>rtt_get_counter\<close> returns the driver's counter plus the core's offset modulo
  \<open>2 ^ 32\<close>; it is a function of the state and returns no new state.
  \<^verbatim>\<open>rtt_set_counter v\<close> sets the offset to \<open>v\<close> minus the driver's counter and leaves
  the driver's counter as it is, so that \<^verbatim>\<open>rtt_get_counter\<close> returns exactly \<open>v\<close> right
  after it, and it recomputes the armed hardware event.
\<close>

theorem counter_get_set:
  "rtt_get_counter s = hw_get_counter s + rtt_offset s \<and>
   unat (rtt_get_counter s) = (unat (hw_get_counter s) + unat (rtt_offset s)) mod 2 ^ 32 \<and>
   rtt_offset (rtt_set_counter v s) = v - hw_get_counter s \<and>
   hw_get_counter (rtt_set_counter v s) = hw_get_counter s \<and>
   rtt_get_counter (rtt_set_counter v s) = v \<and>
   selection_outcome (rtt_set_counter v s)"
  by (simp add: rtt_get_counter_def rtt_set_counter_def unat_word_ariths
      selection_outcome_update)

theorem counter_get_set_witness:
  "rtt_get_counter (example_state Rtt_hw_frc_driver) = 1000000 \<and>
   rtt_get_counter (rtt_set_counter 42 (example_state Rtt_hw_frc_driver)) = 42 \<and>
   rtt_offset (rtt_set_counter 42 (example_state Rtt_hw_frc_driver)) = 4293967338 \<and>
   rtt_get_counter (rtt_set_counter 42 (example_state Rtt_hw_sys_driver)) = 42"
  using counter_get_set [of "example_state Rtt_hw_frc_driver" 42]
    counter_get_set [of "example_state Rtt_hw_sys_driver" 42]
  by (simp add: example_state_def hw_get_counter_def frc_get_counter_def
      FRC_COUNTER_TO_US_def FRC_FREQUENCY_def)

lemma sys_round_trip:
  assumes "rtt_hw s = Rtt_hw_sys_driver"
  shows "rtt_get_counter (rtt_restore_counter P False (rtt_save_counter s)) - rtt_get_counter s
         = rtc_clk_to_us P 0 (rtc_clock_cali s)"
  using assms
  by (simp add: rtt_get_counter_def rtt_restore_counter_def rtt_save_counter_def
      hw_restore_counter_def hw_save_counter_def hw_get_counter_def
      sys_restore_counter_def sys_save_counter_def sys_get_counter_def
      SYS_US_TO_COUNT_id Let_def)

lemma frc_round_trip:
  assumes "rtt_hw s = Rtt_hw_frc_driver" and "rtc_clk_to_us P 0 (rtc_clock_cali s) \<le> 1"
  shows "rtt_get_counter (rtt_restore_counter P False (rtt_save_counter s)) = rtt_get_counter s"
  using assms
  by (simp add: rtt_get_counter_def rtt_restore_counter_def rtt_save_counter_def
      hw_restore_counter_def hw_save_counter_def hw_get_counter_def
      frc_restore_counter_def frc_save_counter_def frc_get_counter_def frc2_write_load_def
      FRC_US_TO_COUNTER_small FRC_COUNTER_TO_US_mod Let_def)

text \<open>
  C8.  On either driver, \<^verbatim>\<open>rtt_save_counter\<close> followed at once by
  \<^verbatim>\<open>rtt_restore_counter(false)\<close>, the RTC counter not having moved in between, changes
  the value of \<^verbatim>\<open>rtt_get_counter\<close> by at most one tick.  The calibration function of the
  SDK is taken to convert zero RTC ticks to at most one microsecond.
\<close>

theorem sleep_round_trip:
  assumes "rtc_clk_to_us P 0 (rtc_clock_cali s) \<le> 1"
  shows "rtt_get_counter (rtt_restore_counter P False (rtt_save_counter s)) - rtt_get_counter s
         \<le> 1"
proof (cases "rtt_hw s")
  case Rtt_hw_sys_driver
  then show ?thesis using assms by (simp add: sys_round_trip)
next
  case Rtt_hw_frc_driver
  then show ?thesis using assms by (simp add: frc_round_trip)
qed

theorem sleep_round_trip_witness:
  "rtc_clk_to_us example_platform 0 (rtc_clock_cali frc_saved_state) \<le> 1 \<and>
   rtt_get_counter (rtt_restore_counter example_platform False (rtt_save_counter frc_saved_state))
     - rtt_get_counter frc_saved_state \<le> 1 \<and>
   rtc_clk_to_us example_platform 0 (rtc_clock_cali (example_state Rtt_hw_sys_driver)) \<le> 1 \<and>
   rtt_get_counter (rtt_restore_counter example_platform False
       (rtt_save_counter (example_state Rtt_hw_sys_driver)))
     - rtt_get_counter (example_state Rtt_hw_sys_driver) \<le> 1"
proof -
  have h1: "rtc_clk_to_us example_platform 0 (rtc_clock_cali frc_saved_state) \<le> 1"
    by (simp add: example_platform_def)
  have h2: "rtc_clk_to_us example_platform 0 (rtc_clock_cali (example_state Rtt_hw_sys_driver)) \<le> 1"
    by (simp add: example_platform_def)
  show ?thesis
    using h1 h2 sleep_round_trip [OF h1] sleep_round_trip [OF h2] by simp
qed

text \<open>
  The claim C2 fails on the FRC2 driver: a restore with \<open>in_init = false\<close> does the same as
  one with \<open>in_init = true\<close>.  With no RTC tick elapsed it moves the timer's count from
  312 500 to the saved count 100.
\<close>

theorem frc_restore_ignores_in_init:
  "rtt_restore_counter example_platform False frc_saved_state =
     rtt_restore_counter example_platform True frc_saved_state \<and>
   RTC_COUNTER frc_saved_state - frc_rtc_counter_saved frc_saved_state = 0 \<and>
   count (frc2 frc_saved_state) = 312500 \<and>
   count (frc2 (rtt_restore_counter example_platform False frc_saved_state)) = 100"
  by (simp add: frc_saved_state_def example_state_def example_platform_def
      rtt_restore_counter_def hw_restore_counter_def frc_restore_counter_def
      frc2_write_load_def FRC_US_TO_COUNTER_def FRC_FREQUENCY_def FRC_OVERFLOW_def Let_def)

text \<open>
  C2, as amended.  On the system-clock driver, \<^verbatim>\<open>rtt_restore_counter(true)\<close> adds to the
  driver's offset the calibrated microseconds elapsed on the RTC since the save and the
  saved counter value, and \<^verbatim>\<open>rtt_restore_counter(false)\<close> adds the elapsed microseconds
  only.  The FRC2 driver does not look at \<open>in_init\<close>: in both cases it loads the timer with
  the saved count plus the elapsed time in timer ticks, modulo the timer's wrap value.
\<close>

theorem restore_counter_in_init:
  "(rtt_hw s = Rtt_hw_sys_driver \<longrightarrow>
      sys_counter_offset (rtt_restore_counter P True s) =
        sys_counter_offset s
        + rtc_clk_to_us P (RTC_COUNTER s - sys_rtc_counter_saved s) (rtc_clock_cali s)
        + sys_counter_saved s \<and>
      sys_counter_offset (rtt_restore_counter P False s) =
        sys_counter_offset s
        + rtc_clk_to_us P (RTC_COUNTER s - sys_rtc_counter_saved s) (rtc_clock_cali s)) \<and>
   (rtt_hw s = Rtt_hw_frc_driver \<longrightarrow>
      rtt_restore_counter P False s = rtt_restore_counter P True s \<and>
      load (frc2 (rtt_restore_counter P in_init s)) =
        (frc_counter_saved s
         + FRC_US_TO_COUNTER
             (ucast (rtc_clk_to_us P (RTC_COUNTER s - frc_rtc_counter_saved s) (rtc_clock_cali s))))
        mod FRC_OVERFLOW \<and>
      count (frc2 (rtt_restore_counter P in_init s)) =
        load (frc2 (rtt_restore_counter P in_init s)))"
  by (simp add: rtt_restore_counter_def hw_restore_counter_def sys_restore_counter_def
      frc_restore_counter_def frc2_write_load_def Let_def)

theorem restore_counter_in_init_witness:
  "rtt_hw ((example_state Rtt_hw_sys_driver)\<lparr>sys_counter_saved := 100, RTC_COUNTER := 8192,
      rtc_clock_cali := 5\<rparr>) = Rtt_hw_sys_driver \<and>
   sys_counter_offset (rtt_restore_counter example_platform True
     ((example_state Rtt_hw_sys_driver)\<lparr>sys_counter_saved := 100, RTC_COUNTER := 8192,
        rtc_clock_cali := 5\<rparr>)) = 110 \<and>
   sys_counter_offset (rtt_restore_counter example_platform False
     ((example_state Rtt_hw_sys_driver)\<lparr>sys_counter_saved := 100, RTC_COUNTER := 8192,
        rtc_clock_cali := 5\<rparr>)) = 10 \<and>
   rtt_hw frc_saved_state = Rtt_hw_frc_driver \<and>
   load (frc2 (rtt_restore_counter example_platform True frc_saved_state)) = 100"
  using restore_counter_in_init [of "(example_state Rtt_hw_sys_driver)\<lparr>sys_counter_saved := 100,
      RTC_COUNTER := 8192, rtc_clock_cali := 5\<rparr>" example_platform True]
    restore_counter_in_init [of frc_saved_state example_platform True]
  by (simp add: frc_saved_state_def example_state_def example_platform_def
      FRC_US_TO_COUNTER_def FRC_FREQUENCY_def FRC_OVERFLOW_def)

subsection \<open>Entering sleep\<close>

lemma rtt_get_counter_save [simp]:
  "rtt_get_counter (rtt_save_counter s) = rtt_get_counter s"
  "rtt_counter (rtt_save_counter s) = rtt_counter s"
  by (simp_all add: rtt_get_counter_def rtt_save_counter_def)

lemma rtt_get_counter_sleep_fields [simp]:
  "rtt_get_counter (s\<lparr>rtt_counter := c, sleep_timer_wakeup := w\<rparr>) = rtt_get_counter s"
  "rtt_get_counter (s\<lparr>rtt_counter := c\<rparr>) = rtt_get_counter s"
  by (simp_all add: rtt_get_counter_def hw_get_counter_def sys_get_counter_def
      frc_get_counter_def split: rtt_hw_driver_t.splits)

lemmas sleep_eval_defs = rtt_set_alarm_def
  rtt_pm_sleep_enter_def rtt_save_counter_def hw_save_counter_def sys_save_counter_def
  frc_save_counter_def eval_defs Let_def

text \<open>
  The claim C3 fails where an event is armed and the distance to it is zero: an alarm for
  the value 1 000 000 is armed, the counter reads 1 000 000, and
  \<^verbatim>\<open>rtt_pm_sleep_enter\<close> returns 0 and leaves \<open>wakeup\<close> false.
\<close>

theorem sleep_enter_zero_distance:
  "alarm_set (rtt_counter (due_alarm_state Rtt_hw_sys_driver)) \<and>
   alarm_active (rtt_counter (due_alarm_state Rtt_hw_sys_driver)) = 1000000 \<and>
   rtt_get_counter (due_alarm_state Rtt_hw_sys_driver) = 1000000 \<and>
   fst (rtt_pm_sleep_enter example_platform 0 (due_alarm_state Rtt_hw_sys_driver)) = 0 \<and>
   \<not> wakeup (rtt_counter (snd (rtt_pm_sleep_enter example_platform 0
         (due_alarm_state Rtt_hw_sys_driver))))"
  by (simp add: due_alarm_state_def sleep_eval_defs)

text \<open>
  C3, as amended.  \<^verbatim>\<open>rtt_pm_sleep_enter\<close> first saves the counter.  If no hardware event
  is armed it returns 0 and the alarm state is as before.  If an event is armed it
  converts the distance from the counter to \<open>alarm_active\<close> to microseconds and returns
  it, cut to 32 bits; \<open>wakeup\<close> is set to true and the timer wake-up is programmed when
  that duration is not zero, and \<open>wakeup\<close> is set to false when it is zero.  Nothing else
  of the alarm state changes.
\<close>

theorem pm_sleep_enter_result:
  "(\<not> alarm_set (rtt_counter s) \<longrightarrow>
      rtt_pm_sleep_enter P mode s = (0, rtt_save_counter s) \<and>
      rtt_counter (snd (rtt_pm_sleep_enter P mode s)) = rtt_counter s) \<and>
   (alarm_set (rtt_counter s) \<longrightarrow>
      fst (rtt_pm_sleep_enter P mode s) =
        ucast (RTT_TICKS_TO_US P (alarm_active (rtt_counter s) - rtt_get_counter s)) \<and>
      rtt_counter (snd (rtt_pm_sleep_enter P mode s)) =
        (rtt_counter s)\<lparr>wakeup :=
           RTT_TICKS_TO_US P (alarm_active (rtt_counter s) - rtt_get_counter s) \<noteq> 0\<rparr> \<and>
      sleep_timer_wakeup (snd (rtt_pm_sleep_enter P mode s)) =
        (if RTT_TICKS_TO_US P (alarm_active (rtt_counter s) - rtt_get_counter s) \<noteq> 0
         then Some (RTT_TICKS_TO_US P (alarm_active (rtt_counter s) - rtt_get_counter s))
         else sleep_timer_wakeup (rtt_save_counter s)) \<and>
      (snd (rtt_pm_sleep_enter P mode s))
        \<lparr>rtt_counter := rtt_counter s,
         sleep_timer_wakeup := sleep_timer_wakeup (rtt_save_counter s)\<rparr> = rtt_save_counter s)"
  by (simp add: rtt_pm_sleep_enter_def Let_def)

theorem pm_sleep_enter_result_witness:
  "\<not> alarm_set (rtt_counter (example_state Rtt_hw_sys_driver)) \<and>
   fst (rtt_pm_sleep_enter example_platform 0 (example_state Rtt_hw_sys_driver)) = 0 \<and>
   alarm_set (rtt_counter (rtt_set_alarm 1005000 (Some 1) 7 (example_state Rtt_hw_sys_driver))) \<and>
   fst (rtt_pm_sleep_enter example_platform 0
         (rtt_set_alarm 1005000 (Some 1) 7 (example_state Rtt_hw_sys_driver))) = 5000 \<and>
   wakeup (rtt_counter (snd (rtt_pm_sleep_enter example_platform 0
         (rtt_set_alarm 1005000 (Some 1) 7 (example_state Rtt_hw_sys_driver)))))"
  using pm_sleep_enter_result [of "example_state Rtt_hw_sys_driver" example_platform 0]
    pm_sleep_enter_result [of "rtt_set_alarm 1005000 (Some 1) 7 (example_state Rtt_hw_sys_driver)"
      example_platform 0]
  by (simp add: rtt_set_alarm_def eval_defs Let_def)

text \<open>
  The claim C4 fails where the alarm value equals the counter: the wrapped difference is
  0, and on a platform where a tick is a microsecond \<^verbatim>\<open>rtt_pm_sleep_enter\<close> returns 0.
\<close>

theorem sleep_enter_alarm_at_counter:
  "alarm_set (rtt_counter (due_alarm_state Rtt_hw_frc_driver)) \<and>
   alarm_active (rtt_counter (due_alarm_state Rtt_hw_frc_driver)) = 1000000 \<and>
   alarm_active (rtt_counter (due_alarm_state Rtt_hw_frc_driver))
     \<le> rtt_get_counter (due_alarm_state Rtt_hw_frc_driver) \<and>
   fst (rtt_pm_sleep_enter example_platform 0 (due_alarm_state Rtt_hw_frc_driver)) = 0"
  by (simp add: due_alarm_state_def sleep_eval_defs)

text \<open>
  C4, as amended.  When a user alarm is armed (\<open>alarm_set\<close> true, \<open>alarm_active\<close> not 0)
  and \<open>alarm_active\<close> is less than or equal to the counter, \<^verbatim>\<open>rtt_pm_sleep_enter\<close>
  returns the conversion to microseconds of the 32-bit difference
  \<open>alarm_active - counter\<close>, with no check for an alarm that has passed.  The difference
  is \<open>2 ^ 32 - (counter - alarm_active)\<close> ticks when \<open>alarm_active\<close> is less than
  the counter, and 0 when they are equal.
\<close>

theorem pm_sleep_enter_passed_alarm:
  assumes "alarm_set (rtt_counter s)"
    and "alarm_active (rtt_counter s) \<noteq> 0"
    and "alarm_active (rtt_counter s) \<le> rtt_get_counter s"
  shows "fst (rtt_pm_sleep_enter P mode s) =
           ucast (RTT_TICKS_TO_US P (alarm_active (rtt_counter s) - rtt_get_counter s)) \<and>
         unat (alarm_active (rtt_counter s) - rtt_get_counter s) =
           (if alarm_active (rtt_counter s) = rtt_get_counter s then 0
            else 2 ^ 32 - (unat (rtt_get_counter s) - unat (alarm_active (rtt_counter s))))"
proof -
  have le: "unat (alarm_active (rtt_counter s)) \<le> unat (rtt_get_counter s)"
    using assms(3) by (simp add: word_le_nat_alt)
  have lt: "unat (rtt_get_counter s) < 2 ^ 32"
    using unsigned_less [of "rtt_get_counter s", where ?'a = nat] by simp
  have "unat (alarm_active (rtt_counter s) - rtt_get_counter s) =
          (if alarm_active (rtt_counter s) = rtt_get_counter s then 0
           else 2 ^ 32 - (unat (rtt_get_counter s) - unat (alarm_active (rtt_counter s))))"
    using le lt by (auto simp: unat_sub_if' word_unat_eq_iff)
  moreover have "fst (rtt_pm_sleep_enter P mode s) =
      ucast (RTT_TICKS_TO_US P (alarm_active (rtt_counter s) - rtt_get_counter s))"
    using assms(1) by (simp add: rtt_pm_sleep_enter_def Let_def)
  ultimately show ?thesis by simp
qed

theorem pm_sleep_enter_passed_alarm_witness:
  "alarm_set (rtt_counter (passed_alarm_state Rtt_hw_frc_driver)) \<and>
   alarm_active (rtt_counter (passed_alarm_state Rtt_hw_frc_driver)) = 999000 \<and>
   rtt_get_counter (passed_alarm_state Rtt_hw_frc_driver) = 1000000 \<and>
   fst (rtt_pm_sleep_enter example_platform 0 (passed_alarm_state Rtt_hw_frc_driver))
     = 4294966296"
proof -
  have h1: "alarm_set (rtt_counter (passed_alarm_state Rtt_hw_frc_driver))"
    by (simp add: passed_alarm_state_def sleep_eval_defs)
  have h2: "alarm_active (rtt_counter (passed_alarm_state Rtt_hw_frc_driver)) \<noteq> 0"
    by (simp add: passed_alarm_state_def sleep_eval_defs)
  have h3: "alarm_active (rtt_counter (passed_alarm_state Rtt_hw_frc_driver))
      \<le> rtt_get_counter (passed_alarm_state Rtt_hw_frc_driver)"
    by (simp add: passed_alarm_state_def sleep_eval_defs)
  show ?thesis
    using pm_sleep_enter_passed_alarm [OF h1 h2 h3, of example_platform 0]
    by (simp add: passed_alarm_state_def sleep_eval_defs)
qed

subsection \<open>The interrupt dispatch\<close>





lemma rtt_get_counter_hw_set [simp]:
  "rtt_get_counter (hw_set_alarm v cb a s) = rtt_get_counter s"
  "rtt_get_counter (hw_clear_alarm s) = rtt_get_counter s"
  by (simp_all add: rtt_get_counter_def)


lemma wakeup_cleared:
  "(if wakeup (rtt_counter s) then s\<lparr>rtt_counter := (rtt_counter s)\<lparr>wakeup := False\<rparr>\<rparr> else s)
   = s\<lparr>rtt_counter := (rtt_counter s)\<lparr>wakeup := False\<rparr>\<rparr>"
  by (cases "wakeup (rtt_counter s)") simp_all

lemma rtt_clear_alarm_slots [simp]:
  "alarm (rtt_counter (rtt_clear_alarm s)) = 0"
  "alarm_cb (rtt_counter (rtt_clear_alarm s)) = None"
  "alarm_arg (rtt_counter (rtt_clear_alarm s)) = 0"
  "overflow_cb (rtt_counter (rtt_clear_alarm s)) = overflow_cb (rtt_counter s)"
  "overflow_arg (rtt_counter (rtt_clear_alarm s)) = overflow_arg (rtt_counter s)"
  by (simp_all add: rtt_clear_alarm_def)

lemma rtt_set_alarm_slots [simp]:
  "alarm (rtt_counter (rtt_set_alarm v cb a s)) = v"
  "alarm_cb (rtt_counter (rtt_set_alarm v cb a s)) = cb"
  "alarm_arg (rtt_counter (rtt_set_alarm v cb a s)) = a"
  "overflow_cb (rtt_counter (rtt_set_alarm v cb a s)) = overflow_cb (rtt_counter s)"
  "overflow_arg (rtt_counter (rtt_set_alarm v cb a s)) = overflow_arg (rtt_counter s)"
  by (simp_all add: rtt_set_alarm_def)


lemma update_alarm_frame [simp]:
  "rtt_counter (update_alarm c s) = rtt_counter s"
  "rtt_offset (update_alarm c s) = rtt_offset s"
  "rtt_hw (update_alarm c s) = rtt_hw s"
  "frc_alarm_cb (frc_alarm (update_alarm c s)) = frc_alarm_cb (frc_alarm s)"
  "frc_alarm_set (frc_alarm (update_alarm c s)) = frc_alarm_set (frc_alarm s)"
  "frc_alarm_arg (frc_alarm (update_alarm c s)) = frc_alarm_arg (frc_alarm s)"
  by (simp_all add: update_alarm_def)




lemmas isr_eval_defs = rtt_set_alarm_def
  rtt_clear_alarm_def rtt_isr_def frc_isr_def call_cb_def frc2_write_load_def
  eval_defs Let_def


subsection \<open>Executions\<close>

lemma no_alarm_call_simps [simp]:
  "no_alarm_call []"
  "no_alarm_call (x # l) = (\<not> is_alarm_call x \<and> no_alarm_call l)"
  "no_alarm_call (l @ l') = (no_alarm_call l \<and> no_alarm_call l')"
  by (auto simp: no_alarm_call_def)

lemma rtt_isr_no_alarm:
  assumes "quiet_callbacks P" and "alarm_cb (rtt_counter s) = None"
  shows "alarm_cb (rtt_counter (fst (rtt_isr P s))) = None \<and> no_alarm_call (snd (rtt_isr P s))"
  using assms
  by (auto simp: rtt_isr_def wakeup_cleared Let_def quiet_callbacks_def split: option.splits)

lemma call_cb_no_alarm:
  assumes "quiet_callbacks P" and "alarm_cb (rtt_counter s) = None"
  shows "alarm_cb (rtt_counter (fst (call_cb P cb a s))) = None \<and>
         no_alarm_call (snd (call_cb P cb a s))"
  using assms rtt_isr_no_alarm [of P s]
  by (cases cb) (auto simp: call_cb_def quiet_callbacks_def)

lemma frc_isr_no_alarm:
  assumes "quiet_callbacks P" and "alarm_cb (rtt_counter s) = None"
  shows "alarm_cb (rtt_counter (fst (frc_isr P s))) = None \<and> no_alarm_call (snd (frc_isr P s))"
proof -
  define s1 where
    "s1 = (if frc_active (frc_alarm s) = 0
           then frc2_write_load (count (frc2 s) mod FRC_OVERFLOW) s else s)"
  have s1: "alarm_cb (rtt_counter s1) = None"
    using assms(2) by (simp add: s1_def frc2_write_load_def)
  have c: "alarm_cb (rtt_counter (fst (call_cb P cb a (s1\<lparr>frc_alarm := x\<rparr>)))) = None \<and>
        no_alarm_call (snd (call_cb P cb a (s1\<lparr>frc_alarm := x\<rparr>)))" for cb a x
    using call_cb_no_alarm [OF assms(1), of "s1\<lparr>frc_alarm := x\<rparr>" cb a] s1 by simp
  show ?thesis
    unfolding frc_isr_def Let_def s1_def [symmetric]
    using s1 c by (auto simp: case_prod_beta split: option.splits)
qed

lemma xtimer_fire_no_alarm:
  assumes "quiet_callbacks P" and "alarm_cb (rtt_counter s) = None"
  shows "alarm_cb (rtt_counter (fst (xtimer_fire P s))) = None \<and>
         no_alarm_call (snd (xtimer_fire P s))"
proof -
  have c: "alarm_cb (rtt_counter (fst (call_cb P cb a (s\<lparr>sys_timer := x\<rparr>)))) = None \<and>
        no_alarm_call (snd (call_cb P cb a (s\<lparr>sys_timer := x\<rparr>)))" for cb a x
    using call_cb_no_alarm [OF assms(1), of "s\<lparr>sys_timer := x\<rparr>" cb a] assms(2) by simp
  show ?thesis
    using assms(2) c by (auto simp: xtimer_fire_def Let_def split: option.splits)
qed

lemma hw_restore_frame [simp]:
  "rtt_counter (hw_restore_counter P b s) = rtt_counter s"
  by (simp add: hw_restore_counter_def sys_restore_counter_def frc_restore_counter_def
      frc2_write_load_def Let_def split: rtt_hw_driver_t.splits)

lemma step_no_alarm:
  assumes "quiet_callbacks P" and "alarm_cb (rtt_counter s) = None" and "\<not> installs_alarm e"
  shows "alarm_cb (rtt_counter (fst (step P e s))) = None \<and> no_alarm_call (snd (step P e s))"
proof (cases e)
  case Hw_interrupt
  then show ?thesis
    using frc_isr_no_alarm [OF assms(1,2)] xtimer_fire_no_alarm [OF assms(1,2)]
    by (simp add: hw_interrupt_def split: rtt_hw_driver_t.splits)
next
  case (Call_set_alarm v cb a)
  with assms(3) have "cb = None" by (cases cb) simp_all
  with Call_set_alarm show ?thesis by simp
next
  case (Call_pm_sleep_exit b)
  then show ?thesis
    using rtt_isr_no_alarm [OF assms(1), of "rtt_restore_counter P False s"] assms(2)
    by (simp add: rtt_pm_sleep_exit_def rtt_restore_counter_def Let_def)
next
  case (Call_pm_sleep_enter m)
  then show ?thesis using assms(2)
    by (simp add: rtt_pm_sleep_enter_def Let_def)
qed (use assms(2) in \<open>simp_all add: time_passes_def rtt_set_overflow_cb_def
      rtt_clear_overflow_cb_def rtt_set_counter_def rtt_restore_counter_def Let_def\<close>)

lemma run_events_no_alarm:
  assumes "quiet_callbacks P"
  shows "alarm_cb (rtt_counter s) = None \<Longrightarrow> \<forall>e \<in> set es. \<not> installs_alarm e \<Longrightarrow>
         alarm_cb (rtt_counter (fst (run_events P es s))) = None \<and>
         no_alarm_call (snd (run_events P es s))"
proof (induction es arbitrary: s)
  case Nil
  then show ?case by simp
next
  case (Cons e es)
  have st: "alarm_cb (rtt_counter (fst (step P e s))) = None \<and> no_alarm_call (snd (step P e s))"
    using step_no_alarm [OF assms Cons.prems(1)] Cons.prems(2) by simp
  then have "alarm_cb (rtt_counter (fst (run_events P es (fst (step P e s))))) = None \<and>
      no_alarm_call (snd (run_events P es (fst (step P e s))))"
    using Cons.IH [of "fst (step P e s)"] Cons.prems(2) by simp
  with st show ?case by (simp add: case_prod_beta)
qed















lemmas run_eval_defs = time_passes_def
  hw_interrupt_def xtimer_fire_def rtt_pm_sleep_exit_def rtt_restore_counter_def
  hw_restore_counter_def sys_restore_counter_def frc_restore_counter_def isr_eval_defs




text \<open>
  The claim C9 fails in its last part: once the alarm has fired, \<^verbatim>\<open>rtt_get_alarm\<close>
  returns 0, not 1 005 000, because the dispatch clears the alarm slot before it calls
  the callback.  Here the software timer is queued for 5000 microseconds, the callback is
  called once with its argument 7, and the counter reads 1 005 000.
\<close>

theorem get_alarm_zero_after_firing:
  "queued (sys_timer (rtt_set_alarm 1005000 (Some 1) 7 (example_state Rtt_hw_sys_driver)))
     = Some 5000 \<and>
   snd (run_events example_platform scenario_events (example_state Rtt_hw_sys_driver))
     = [Alarm_call 1 7] \<and>
   rtt_get_counter (fst (run_events example_platform scenario_events
     (example_state Rtt_hw_sys_driver))) = 1005000 \<and>
   rtt_get_alarm (fst (run_events example_platform scenario_events
     (example_state Rtt_hw_sys_driver))) = 0"
  by (simp add: scenario_events_def run_eval_defs rtt_get_alarm_def)

text \<open>
  C9, as amended.  When \<^verbatim>\<open>rtt_set_alarm(v, cb, arg)\<close> is called with the counter below
  \<open>v\<close> and the callback leaves the core's slots alone: \<^verbatim>\<open>rtt_get_alarm\<close> returns \<open>v\<close>
  from then on while time passes; the dispatch of the alarm calls \<open>cb\<close> once with the
  original argument and calls nothing else; after the dispatch \<^verbatim>\<open>rtt_get_alarm\<close>
  returns 0 and no later event calls through the alarm slot again, as long as nothing
  installs a new alarm; and \<^verbatim>\<open>rtt_get_alarm\<close> also returns 0 after
  \<^verbatim>\<open>rtt_clear_alarm\<close>.
\<close>

theorem alarm_fires_once_and_clears:
  assumes ahead: "rtt_get_counter s < v"
    and inert: "\<forall>t. rtt_counter (app_run P cb a t) = rtt_counter t"
    and quiet: "quiet_callbacks P"
    and post: "\<forall>e \<in> set post. \<not> installs_alarm e"
  shows "rtt_get_alarm (rtt_set_alarm v (Some cb) a s) = v \<and>
         rtt_get_alarm (time_passes d_us d_rtc d_frc (rtt_set_alarm v (Some cb) a s)) = v \<and>
         snd (rtt_isr P (time_passes d_us d_rtc d_frc (rtt_set_alarm v (Some cb) a s))) =
           [Alarm_call cb a] \<and>
         rtt_get_alarm
           (fst (rtt_isr P (time_passes d_us d_rtc d_frc (rtt_set_alarm v (Some cb) a s)))) = 0 \<and>
         no_alarm_call (snd (run_events P post
           (fst (rtt_isr P (time_passes d_us d_rtc d_frc (rtt_set_alarm v (Some cb) a s)))))) \<and>
         rtt_get_alarm (rtt_clear_alarm (rtt_set_alarm v (Some cb) a s)) = 0"
proof -
  define s1 where "s1 = time_passes d_us d_rtc d_frc (rtt_set_alarm v (Some cb) a s)"
  have nz: "v \<noteq> 0" using ahead by (auto simp: word_less_nat_alt)
  have c1: "rtt_counter s1 = rtt_counter (rtt_set_alarm v (Some cb) a s)"
    by (simp add: s1_def time_passes_def)
  have act: "alarm_active (rtt_counter (rtt_set_alarm v (Some cb) a s)) = v"
    using ahead by (simp add: rtt_set_alarm_def rtt_update_hw_alarm_counter)
  have a1: "alarm_active (rtt_counter s1) = alarm (rtt_counter s1)"
    "alarm_cb (rtt_counter s1) = Some cb" "alarm_arg (rtt_counter s1) = a"
    "alarm (rtt_counter s1) \<noteq> 0"
    using nz act by (simp_all add: c1)
  have isr: "rtt_isr P s1 =
      (app_run P cb a (rtt_clear_alarm (s1\<lparr>rtt_counter := (rtt_counter s1)\<lparr>wakeup := False\<rparr>\<rparr>)),
       [Alarm_call cb a])"
    using a1 by (simp add: rtt_isr_def wakeup_cleared Let_def)
  have slot: "rtt_counter (fst (rtt_isr P s1)) =
      rtt_counter (rtt_clear_alarm (s1\<lparr>rtt_counter := (rtt_counter s1)\<lparr>wakeup := False\<rparr>\<rparr>))"
    using inert by (simp add: isr)
  have cleared: "alarm_cb (rtt_counter (fst (rtt_isr P s1))) = None"
    "alarm (rtt_counter (fst (rtt_isr P s1))) = 0"
    by (simp_all add: slot)
  have later: "no_alarm_call (snd (run_events P post (fst (rtt_isr P s1))))"
    using run_events_no_alarm [OF quiet cleared(1)] post by simp
  show ?thesis
    using later cleared(2) by (simp add: rtt_get_alarm_def c1 isr s1_def [symmetric])
qed

theorem alarm_fires_once_and_clears_witness:
  "rtt_get_counter (example_state Rtt_hw_sys_driver) < 1005000 \<and>
   quiet_callbacks example_platform \<and>
   rtt_get_alarm (time_passes 5000 0 0
     (rtt_set_alarm 1005000 (Some 1) 7 (example_state Rtt_hw_sys_driver))) = 1005000 \<and>
   snd (rtt_isr example_platform (time_passes 5000 0 0
     (rtt_set_alarm 1005000 (Some 1) 7 (example_state Rtt_hw_sys_driver)))) = [Alarm_call 1 7] \<and>
   rtt_get_alarm (fst (rtt_isr example_platform (time_passes 5000 0 0
     (rtt_set_alarm 1005000 (Some 1) 7 (example_state Rtt_hw_sys_driver))))) = 0 \<and>
   no_alarm_call (snd (run_events example_platform [Hw_interrupt, Call_pm_sleep_exit True]
     (fst (rtt_isr example_platform (time_passes 5000 0 0
       (rtt_set_alarm 1005000 (Some 1) 7 (example_state Rtt_hw_sys_driver)))))))"
proof -
  have h1: "rtt_get_counter (example_state Rtt_hw_sys_driver) < 1005000"
    by (simp add: eval_defs)
  have h2: "\<forall>t. rtt_counter (app_run example_platform 1 7 t) = rtt_counter t"
    by (simp add: example_platform_def)
  have h3: "quiet_callbacks example_platform"
    by (simp add: quiet_callbacks_def example_platform_def)
  have h4: "\<forall>e \<in> set [Hw_interrupt, Call_pm_sleep_exit True]. \<not> installs_alarm e" by simp
  show ?thesis
    using alarm_fires_once_and_clears [OF h1 h2 h3 h4, of 5000 0 0] h1 h3 by blast
qed

end
